theory Spec2Isabelle
  imports Main "HOL-Library.Word"
begin

section \<open>The Fluidkeys database (database/database.go)\<close>

text \<open>
  The database is one JSON file, \<^verbatim>\<open>db.json\<close>. Every public operation loads the whole
  file into a \<^verbatim>\<open>Message\<close>, works on it in memory and (for the mutating operations)
  writes the whole \<^verbatim>\<open>Message\<close> back. The embedding below follows the Go source function
  by function; the file system is an explicit value that the operations take and return.
\<close>

subsection \<open>Data\<close>

text \<open>
  \<^verbatim>\<open>fpr.Fingerprint\<close> wraps a 20 byte array and \<^verbatim>\<open>uuid.UUID\<close> is a 16 byte array;
  both are compared with \<^verbatim>\<open>==\<close>. \<^verbatim>\<open>time.Time\<close> is an instant, here in nanoseconds
  since the Unix epoch, and \<^verbatim>\<open>time.Duration\<close> a number of nanoseconds.
\<close>

type_synonym fingerprint = "160 word"
type_synonym uuid = "128 word"
type_synonym time = int
type_synonym duration = int

text \<open>\<^verbatim>\<open>team.RequestToJoinTeam\<close>, as \<^verbatim>\<open>GetRequestsToJoinTeams\<close> fills it.\<close>

record RequestToJoinTeam =
  TeamUUID :: uuid
  Fingerprint :: fingerprint
  RequestedAt :: time

record KeyImportedIntoGnuPGMessage =
  Fingerprint :: fingerprint

record RequestToJoinTeamMessage =
  TeamUUID :: uuid
  Fingerprint :: fingerprint
  RequestedAt :: time

record Message =
  KeysImportedIntoGnuPG :: "KeyImportedIntoGnuPGMessage list"
  RequestsToJoinTeams :: "RequestToJoinTeamMessage list"

subsection \<open>The backing file\<close>

text \<open>
  What \<^verbatim>\<open>json.Unmarshal\<close> makes of the bytes of the file, seen from a \<^verbatim>\<open>*Message\<close>:
  \<^item> \<open>Malformed\<close>: the bytes are rejected (a syntax error, a truncated file, a value of
    the wrong type);
  \<^item> \<open>Null\<close>: the literal \<^verbatim>\<open>null\<close>, which leaves the \<^verbatim>\<open>*Message\<close> nil;
  \<^item> \<open>Object m others\<close>: a JSON object. \<open>m\<close> holds its two known members (an absent or
    \<^verbatim>\<open>null\<close> member is a nil slice in Go, which ranges, appends and measures as the empty
    list does), \<open>others\<close> every other top-level member, by name and raw JSON text.
\<close>

datatype json_doc =
  Malformed
  | Null
  | Object Message "(string \<times> string) list"

text \<open>
  The file itself: it does not exist, \<^verbatim>\<open>os.Open\<close> fails for another reason,
  \<^verbatim>\<open>ioutil.ReadAll\<close> fails, or its bytes are read.
\<close>

datatype file_state =
  NotExist
  | OpenFails
  | ReadFails
  | Bytes json_doc

text \<open>
  The disk as one database sees it: the file, whether \<^verbatim>\<open>os.Create\<close> succeeds on its
  path and whether \<^verbatim>\<open>encoder.Encode\<close> then succeeds.
\<close>

record disk =
  jsonFile :: file_state
  createOk :: bool
  encodeOk :: bool

datatype error =
  CouldntOpen
  | ReadAllError
  | ErrorLoadingJson
  | NilPointerPanic
  | CouldntCreate
  | EncodeError

subsection \<open>deduplicateKeyImportedIntoGnuPGMessages\<close>

text \<open>
  The loop over the argument \<^verbatim>\<open>slice\<close>, with the map \<^verbatim>\<open>alreadySeen\<close> and the result \<^verbatim>\<open>deduped\<close>
  as it runs: a value not yet a key of the map is appended and entered into the map.
\<close>

fun dedupLoop :: "KeyImportedIntoGnuPGMessage list
    \<Rightarrow> (KeyImportedIntoGnuPGMessage \<rightharpoonup> bool)
    \<Rightarrow> KeyImportedIntoGnuPGMessage list \<Rightarrow> KeyImportedIntoGnuPGMessage list" where
  "dedupLoop [] alreadySeen deduped = deduped"
| "dedupLoop (v # rest) alreadySeen deduped =
     (if alreadySeen v = None
      then dedupLoop rest (alreadySeen(v \<mapsto> True)) (deduped @ [v])
      else dedupLoop rest alreadySeen deduped)"

definition deduplicateKeyImportedIntoGnuPGMessages ::
    "KeyImportedIntoGnuPGMessage list \<Rightarrow> KeyImportedIntoGnuPGMessage list" where
  "deduplicateKeyImportedIntoGnuPGMessages theSlice = dedupLoop theSlice Map.empty []"

subsection \<open>loadFromFile and saveToFile\<close>

text \<open>
  \<^verbatim>\<open>loadFromFile\<close>: a file that does not exist is the empty \<^verbatim>\<open>Message\<close> and no error;
  any other failure to open, a failure to read and bytes that do not unmarshal are errors.
  After unmarshalling, the function reads \<^verbatim>\<open>message.KeysImportedIntoGnuPG\<close>; on the
  literal \<^verbatim>\<open>null\<close> the pointer is still nil and the read panics. The imported keys
  are deduplicated on every load.
\<close>

definition loadFromFile :: "disk \<Rightarrow> error + Message" where
  "loadFromFile db =
     (case jsonFile db of
        NotExist \<Rightarrow> Inr \<lparr>KeysImportedIntoGnuPG = [], RequestsToJoinTeams = []\<rparr>
      | OpenFails \<Rightarrow> Inl CouldntOpen
      | ReadFails \<Rightarrow> Inl ReadAllError
      | Bytes Malformed \<Rightarrow> Inl ErrorLoadingJson
      | Bytes Null \<Rightarrow> Inl NilPointerPanic
      | Bytes (Object message others) \<Rightarrow>
          Inr \<lparr>KeysImportedIntoGnuPG =
                 deduplicateKeyImportedIntoGnuPGMessages (KeysImportedIntoGnuPG message),
               RequestsToJoinTeams = RequestsToJoinTeams message\<rparr>)"

text \<open>
  \<^verbatim>\<open>saveToFile\<close>: \<^verbatim>\<open>os.Create\<close> truncates the file or fails and leaves it alone; the
  encoder then writes the two members of \<^verbatim>\<open>Message\<close> and nothing else. When the
  encoder fails, the file stays truncated or cut short, which no longer unmarshals.
\<close>

definition saveToFile :: "disk \<Rightarrow> Message \<Rightarrow> disk \<times> error option" where
  "saveToFile db message =
     (if createOk db
      then (if encodeOk db
            then (db\<lparr>jsonFile := Bytes (Object message [])\<rparr>, None)
            else (db\<lparr>jsonFile := Bytes Malformed\<rparr>, Some EncodeError))
      else (db, Some CouldntCreate))"

text \<open>
  \<^verbatim>\<open>os.IsNotExist\<close> on an error that \<^verbatim>\<open>loadFromFile\<close> returned: each of them is made
  by \<^verbatim>\<open>fmt.Errorf\<close> (or is a panic), so the answer is no.
\<close>

definition osIsNotExist :: "error \<Rightarrow> bool" where
  "osIsNotExist err = False"

subsection \<open>The public operations\<close>

definition RecordFingerprintImportedIntoGnuPG :: "fingerprint \<Rightarrow> disk \<Rightarrow> disk \<times> error option" where
  "RecordFingerprintImportedIntoGnuPG newFingerprint db =
     (case loadFromFile db of
        Inl err \<Rightarrow> (db, Some err)
      | Inr message \<Rightarrow>
          saveToFile db
            (message\<lparr>KeysImportedIntoGnuPG :=
               deduplicateKeyImportedIntoGnuPGMessages
                 (KeysImportedIntoGnuPG message
                    @ [\<lparr>KeyImportedIntoGnuPGMessage.Fingerprint = newFingerprint\<rparr>])\<rparr>))"

definition RecordRequestToJoinTeam :: "uuid \<Rightarrow> fingerprint \<Rightarrow> time \<Rightarrow> disk \<Rightarrow> disk \<times> error option" where
  "RecordRequestToJoinTeam teamUUID fingerprint now db =
     (case loadFromFile db of
        Inl err \<Rightarrow> (db, Some err)
      | Inr message \<Rightarrow>
          saveToFile db
            (message\<lparr>RequestsToJoinTeams :=
               RequestsToJoinTeams message
                 @ [\<lparr>TeamUUID = teamUUID, Fingerprint = fingerprint, RequestedAt = now\<rparr>]\<rparr>))"

definition GetFingerprintsImportedIntoGnuPG :: "disk \<Rightarrow> error + fingerprint list" where
  "GetFingerprintsImportedIntoGnuPG db =
     (case loadFromFile db of
        Inl err \<Rightarrow> (if osIsNotExist err then Inr [] else Inl err)
      | Inr message \<Rightarrow>
          Inr (map KeyImportedIntoGnuPGMessage.Fingerprint (KeysImportedIntoGnuPG message)))"

definition GetRequestsToJoinTeams :: "disk \<Rightarrow> error + RequestToJoinTeam list" where
  "GetRequestsToJoinTeams db =
     (case loadFromFile db of
        Inl err \<Rightarrow> (if osIsNotExist err then Inr [] else Inl err)
      | Inr message \<Rightarrow>
          Inr (map (\<lambda>msg. \<lparr>RequestToJoinTeam.TeamUUID = TeamUUID msg,
                              RequestToJoinTeam.Fingerprint = Fingerprint msg,
                              RequestToJoinTeam.RequestedAt = RequestedAt msg\<rparr>)
                 (RequestsToJoinTeams message)))"

text \<open>
  The loop of \<^verbatim>\<open>DeleteRequestToJoinTeam\<close>: a request matching both the team UUID and
  the fingerprint is skipped (\<^verbatim>\<open>continue\<close>), any other is appended to \<^verbatim>\<open>newRequests\<close>.
\<close>

fun deleteLoop :: "uuid \<Rightarrow> fingerprint \<Rightarrow> RequestToJoinTeamMessage list
    \<Rightarrow> RequestToJoinTeamMessage list \<Rightarrow> RequestToJoinTeamMessage list" where
  "deleteLoop teamUUID fingerprint [] newRequests = newRequests"
| "deleteLoop teamUUID fingerprint (req # rest) newRequests =
     (if TeamUUID req = teamUUID \<and> Fingerprint req = fingerprint
      then deleteLoop teamUUID fingerprint rest newRequests
      else deleteLoop teamUUID fingerprint rest (newRequests @ [req]))"

definition DeleteRequestToJoinTeam :: "uuid \<Rightarrow> fingerprint \<Rightarrow> disk \<Rightarrow> disk \<times> error option" where
  "DeleteRequestToJoinTeam teamUUID fingerprint db =
     (case loadFromFile db of
        Inl err \<Rightarrow> (db, Some err)
      | Inr message \<Rightarrow>
          saveToFile db
            (message\<lparr>RequestsToJoinTeams :=
               deleteLoop teamUUID fingerprint (RequestsToJoinTeams message) []\<rparr>))"

text \<open>The members of the file that \<^verbatim>\<open>Message\<close> has no field for.\<close>

fun unknownMembers :: "file_state \<Rightarrow> (string \<times> string) list" where
  "unknownMembers (Bytes (Object message others)) = others"
| "unknownMembers f = []"

text \<open>
  Two disks to run the operations on: the directory of a database that was never
  written, and a writable disk whose file holds a JSON object.
\<close>

definition newDatabase :: disk where
  "newDatabase = \<lparr>jsonFile = NotExist, createOk = True, encodeOk = True\<rparr>"

definition diskHolding :: "Message \<Rightarrow> (string \<times> string) list \<Rightarrow> disk" where
  "diskHolding message others =
     \<lparr>jsonFile = Bytes (Object message others), createOk = True, encodeOk = True\<rparr>"

section \<open>Action timestamps\<close>

text \<open>
  Modelled from the spec: the identity that an ActionTimestamp is recorded for. The Go
  functions \<^verbatim>\<open>RecordLast\<close>, \<^verbatim>\<open>GetLast\<close>, \<^verbatim>\<open>IsOlderThan\<close> and \<^verbatim>\<open>makeMapKey\<close> are
  missing from database.go; only their tests are at hand. An identity is a fingerprint
  value, an object that carries a fingerprint, an entity with a canonical string form,
  or something the Store cannot derive a key from.
\<close>

datatype identity =
  FingerprintValue fingerprint
  | CarriesFingerprint fingerprint
  | CanonicalString string
  | NoStableKey

text \<open>
  Modelled from the spec: the key used internally, missing with \<^verbatim>\<open>makeMapKey\<close>. It is
  derived from the fingerprint if there is one, otherwise from the canonical string form.
\<close>

datatype stable_key = KeyOfFingerprint fingerprint | KeyOfString string

text \<open>
  Modelled from the spec: identity normalization, missing with \<^verbatim>\<open>makeMapKey\<close>. A
  fingerprint value and an object carrying that fingerprint get the same key.
\<close>

fun asStableKey :: "identity \<Rightarrow> stable_key option" where
  "asStableKey (FingerprintValue f) = Some (KeyOfFingerprint f)"
| "asStableKey (CarriesFingerprint f) = Some (KeyOfFingerprint f)"
| "asStableKey (CanonicalString s) = Some (KeyOfString s)"
| "asStableKey NoStableKey = None"

datatype store_error = InvalidArgument

text \<open>
  Modelled from the spec: the ActionTimestamp records, one instant per (verb, identity)
  pair; the member of the file that holds them is missing from \<^verbatim>\<open>Message\<close>.
\<close>

type_synonym action_timestamps = "(string \<times> stable_key) \<rightharpoonup> time"

text \<open>
  Modelled from the spec: \<^verbatim>\<open>recordAction\<close> (the missing \<^verbatim>\<open>RecordLast\<close>). It fails with
  InvalidArgument on an empty verb or an identity without a stable key, and otherwise
  overwrites the instant recorded for the pair.
\<close>

definition recordAction ::
    "string \<Rightarrow> identity \<Rightarrow> time \<Rightarrow> action_timestamps \<Rightarrow> store_error + action_timestamps" where
  "recordAction verb ident when store =
     (if verb = [] then Inl InvalidArgument
      else case asStableKey ident of
             None \<Rightarrow> Inl InvalidArgument
           | Some k \<Rightarrow> Inr (store((verb, k) \<mapsto> when)))"

text \<open>
  Modelled from the spec: \<^verbatim>\<open>getLastAction\<close> (the missing \<^verbatim>\<open>GetLast\<close>), the instant
  recorded for the pair, or absent.
\<close>

definition getLastAction :: "string \<Rightarrow> identity \<Rightarrow> action_timestamps \<Rightarrow> time option" where
  "getLastAction verb ident store =
     (case asStableKey ident of None \<Rightarrow> None | Some k \<Rightarrow> store (verb, k))"

text \<open>
  Modelled from the spec: \<^verbatim>\<open>isOlderThan\<close> (the missing \<^verbatim>\<open>IsOlderThan\<close>): true when no
  record exists yet, and \<^verbatim>\<open>now - getLastAction >= maxAge\<close> otherwise.
\<close>

definition isOlderThan ::
    "string \<Rightarrow> identity \<Rightarrow> duration \<Rightarrow> time \<Rightarrow> action_timestamps \<Rightarrow> bool" where
  "isOlderThan verb ident maxAge now store =
     (case getLastAction verb ident store of
        None \<Rightarrow> True
      | Some lastTime \<Rightarrow> maxAge \<le> now - lastTime)"

section \<open>The policy classifier\<close>

text \<open>
  Modelled from the spec: the health states of section 4.2; the Go package \<^verbatim>\<open>status\<close>
  that computes them is missing (only the printer of its warnings is at hand). The last
  state is the spec's "healthy (no warning emitted)".
\<close>

datatype HealthState =
  NoExpiry
  | LongExpiry
  | DueForRotation
  | OverdueForRotation int
  | Expired int
  | Healthy

text \<open>
  Modelled from the spec: the thresholds, which the spec leaves as configuration: the
  urgent window, the early-warning window and the maximum validity in days, and the
  rotation cadence as a duration.
\<close>

record policy =
  urgentWindowDays :: nat
  earlyWarningDays :: nat
  maxValidityDays :: nat
  rotationCadence :: duration

text \<open>Modelled from the spec: one day as a duration, in nanoseconds.\<close>

definition day :: duration where
  "day = 86400000000000"

text \<open>
  Modelled from the spec: "the time since lastRotatedAt exceeds the rotation cadence".
  The spec does not say what an absent \<^verbatim>\<open>lastRotatedAt\<close> means here; it is taken not to
  exceed the cadence.
\<close>

definition cadenceExceeded :: "policy \<Rightarrow> time option \<Rightarrow> time \<Rightarrow> bool" where
  "cadenceExceeded p lastRotatedAt now =
     (case lastRotatedAt of None \<Rightarrow> False | Some t \<Rightarrow> rotationCadence p < now - t)"

text \<open>
  Modelled from the spec: \<^verbatim>\<open>classify\<close>, steps 1 to 6 of the classification algorithm of
  section 4.2, for the expiry of the relevant key material. \<^verbatim>\<open>daysUntilExpiry\<close> is
  \<^verbatim>\<open>floor(expiry - now)\<close> in days (\<open>div\<close> on \<open>int\<close> rounds down); a window of \<open>n\<close> days
  holds the day counts up to and including \<open>n\<close>; the validity is too long when the expiry
  is further in the future than the maximum.
\<close>

definition classify :: "policy \<Rightarrow> time option \<Rightarrow> time option \<Rightarrow> time \<Rightarrow> HealthState" where
  "classify p expiry lastRotatedAt now =
     (case expiry of
        None \<Rightarrow> NoExpiry
      | Some e \<Rightarrow>
          (let daysUntilExpiry = (e - now) div day in
           if daysUntilExpiry < 0 then Expired (- daysUntilExpiry)
           else if daysUntilExpiry \<le> int (urgentWindowDays p)
             then OverdueForRotation daysUntilExpiry
           else if daysUntilExpiry \<le> int (earlyWarningDays p)
                   \<or> cadenceExceeded p lastRotatedAt now
             then DueForRotation
           else if int (maxValidityDays p) < daysUntilExpiry then LongExpiry
           else Healthy))"

section \<open>Properties of the embedding\<close>

subsection \<open>Deduplication\<close>

lemma KeyImported_eq_iff:
  "(a = b) = (KeyImportedIntoGnuPGMessage.Fingerprint a = KeyImportedIntoGnuPGMessage.Fingerprint b)"
  for a b :: KeyImportedIntoGnuPGMessage
  by (cases a, cases b) simp

lemma dedupLoop_acc: "dedupLoop xs seen acc = acc @ dedupLoop xs seen []"
proof (induction xs arbitrary: seen acc)
  case Nil
  show ?case by simp
next
  case (Cons v rest)
  show ?case
  proof (cases "seen v = None")
    case True
    have "dedupLoop rest (seen(v \<mapsto> True)) (acc @ [v]) = (acc @ [v]) @ dedupLoop rest (seen(v \<mapsto> True)) []"
      by (rule Cons.IH)
    moreover have "dedupLoop rest (seen(v \<mapsto> True)) [v] = [v] @ dedupLoop rest (seen(v \<mapsto> True)) []"
      by (rule Cons.IH)
    ultimately show ?thesis using True by simp
  next
    case False
    show ?thesis using Cons.IH [of seen acc] by (simp add: False)
  qed
qed

lemma dedupLoop_Cons:
  "dedupLoop (v # rest) seen [] =
     (if seen v = None then v # dedupLoop rest (seen(v \<mapsto> True)) [] else dedupLoop rest seen [])"
  using dedupLoop_acc [of rest "seen(v \<mapsto> True)" "[v]"] by simp

lemma dedupLoop_set: "set (dedupLoop xs seen []) = {x \<in> set xs. seen x = None}"
proof (induction xs arbitrary: seen)
  case Nil
  show ?case by simp
next
  case (Cons v rest)
  show ?case by (auto simp: dedupLoop_Cons Cons.IH simp del: dedupLoop.simps(2) split: if_splits)
qed

lemma dedupLoop_distinct: "distinct (dedupLoop xs seen [])"
proof (induction xs arbitrary: seen)
  case Nil
  show ?case by simp
next
  case (Cons v rest)
  show ?case by (simp add: dedupLoop_Cons Cons.IH dedupLoop_set del: dedupLoop.simps(2))
qed

lemma dedupLoop_id:
  "distinct xs \<Longrightarrow> (\<And>x. x \<in> set xs \<Longrightarrow> seen x = None) \<Longrightarrow> dedupLoop xs seen [] = xs"
proof (induction xs arbitrary: seen)
  case Nil
  show ?case by simp
next
  case (Cons v rest)
  have "dedupLoop rest (seen(v \<mapsto> True)) [] = rest"
  proof (rule Cons.IH)
    show "distinct rest" using Cons.prems(1) by simp
  next
    fix x assume "x \<in> set rest"
    then show "(seen(v \<mapsto> True)) x = None" using Cons.prems by auto
  qed
  moreover have "seen v = None" using Cons.prems(2) by simp
  ultimately show ?case by (simp add: dedupLoop_Cons del: dedupLoop.simps(2))
qed

lemma dedupLoop_snoc:
  "dedupLoop (xs @ [x]) seen [] =
    (if x \<in> set xs \<or> seen x \<noteq> None then dedupLoop xs seen [] else dedupLoop xs seen [] @ [x])"
proof (induction xs arbitrary: seen)
  case Nil
  show ?case by simp
next
  case (Cons v rest)
  show ?case
  proof (cases "seen v = None")
    case True
    have "dedupLoop (rest @ [x]) (seen(v \<mapsto> True)) [] =
      (if x \<in> set rest \<or> (seen(v \<mapsto> True)) x \<noteq> None
       then dedupLoop rest (seen(v \<mapsto> True)) []
       else dedupLoop rest (seen(v \<mapsto> True)) [] @ [x])"
      by (rule Cons.IH)
    then show ?thesis
      by (cases "x = v") (simp_all add: True dedupLoop_Cons del: dedupLoop.simps(2))
  next
    case False
    have "dedupLoop (rest @ [x]) seen [] =
      (if x \<in> set rest \<or> seen x \<noteq> None then dedupLoop rest seen []
       else dedupLoop rest seen [] @ [x])"
      by (rule Cons.IH)
    then show ?thesis
      by (cases "x = v") (simp_all add: False dedupLoop_Cons del: dedupLoop.simps(2) not_None_eq)
  qed
qed

lemma dedupLoop_firsts:
  "dedupLoop xs seen [] =
     map (\<lambda>i. xs ! i)
       (filter (\<lambda>i. seen (xs ! i) = None \<and> xs ! i \<notin> set (take i xs)) [0..<length xs])"
proof (induction xs arbitrary: seen)
  case Nil
  show ?case by simp
next
  case (Cons v rest)
  have upt: "[0..<length (v # rest)] = 0 # map Suc [0..<length rest]"
    by (simp add: upt_conv_Cons map_Suc_upt del: upt_Suc)
  let ?P = "\<lambda>s i. s (rest ! i) = None \<and> rest ! i \<notin> set (take i rest)"
  have shift: "filter (\<lambda>i. seen ((v # rest) ! i) = None \<and> (v # rest) ! i \<notin> set (take i (v # rest)))
                 (map Suc [0..<length rest])
             = map Suc (filter (\<lambda>i. seen (rest ! i) = None \<and> rest ! i \<noteq> v \<and> rest ! i \<notin> set (take i rest))
                 [0..<length rest])"
    by (simp add: filter_map comp_def conj_commute conj_left_commute)
  show ?case
  proof (cases "seen v = None")
    case True
    have "filter (?P (seen(v \<mapsto> True))) [0..<length rest]
        = filter (\<lambda>i. seen (rest ! i) = None \<and> rest ! i \<noteq> v \<and> rest ! i \<notin> set (take i rest)) [0..<length rest]"
      by (rule filter_cong) auto
    then have "dedupLoop rest (seen(v \<mapsto> True)) [] =
        map (\<lambda>i. rest ! i) (filter (\<lambda>i. seen (rest ! i) = None \<and> rest ! i \<noteq> v \<and> rest ! i \<notin> set (take i rest)) [0..<length rest])"
      by (simp add: Cons.IH)
    with True show ?thesis
      unfolding upt by (simp add: dedupLoop_Cons shift comp_def del: dedupLoop.simps(2))
  next
    case False
    have "filter (?P seen) [0..<length rest]
        = filter (\<lambda>i. seen (rest ! i) = None \<and> rest ! i \<noteq> v \<and> rest ! i \<notin> set (take i rest)) [0..<length rest]"
      using False by (intro filter_cong) auto
    then have "dedupLoop rest seen [] =
        map (\<lambda>i. rest ! i) (filter (\<lambda>i. seen (rest ! i) = None \<and> rest ! i \<noteq> v \<and> rest ! i \<notin> set (take i rest)) [0..<length rest])"
      by (simp add: Cons.IH)
    then show ?thesis
      unfolding upt by (simp add: False dedupLoop_Cons shift comp_def del: dedupLoop.simps(2))
  qed
qed

lemma dedup_firsts:
  "deduplicateKeyImportedIntoGnuPGMessages xs =
     map (\<lambda>i. xs ! i) (filter (\<lambda>i. xs ! i \<notin> set (take i xs)) [0..<length xs])"
  by (simp add: deduplicateKeyImportedIntoGnuPGMessages_def dedupLoop_firsts)

lemma dedup_set: "set (deduplicateKeyImportedIntoGnuPGMessages xs) = set xs"
  by (simp add: deduplicateKeyImportedIntoGnuPGMessages_def dedupLoop_set)

lemma dedup_distinct: "distinct (deduplicateKeyImportedIntoGnuPGMessages xs)"
  by (simp add: deduplicateKeyImportedIntoGnuPGMessages_def dedupLoop_distinct)

lemma dedup_id: "distinct xs \<Longrightarrow> deduplicateKeyImportedIntoGnuPGMessages xs = xs"
  by (simp add: deduplicateKeyImportedIntoGnuPGMessages_def dedupLoop_id)

lemma dedup_idem: "deduplicateKeyImportedIntoGnuPGMessages (deduplicateKeyImportedIntoGnuPGMessages xs) = deduplicateKeyImportedIntoGnuPGMessages xs"
  by (simp add: dedup_id dedup_distinct)

lemma dedup_snoc:
  "deduplicateKeyImportedIntoGnuPGMessages (xs @ [x]) =
    (if x \<in> set xs then deduplicateKeyImportedIntoGnuPGMessages xs else deduplicateKeyImportedIntoGnuPGMessages xs @ [x])"
  by (simp add: deduplicateKeyImportedIntoGnuPGMessages_def dedupLoop_snoc)

lemma fp_distinct: "distinct (map KeyImportedIntoGnuPGMessage.Fingerprint (deduplicateKeyImportedIntoGnuPGMessages xs))"
  by (simp add: distinct_map dedup_distinct inj_on_def KeyImported_eq_iff)


lemma KeyImported_eta:
  "\<lparr>KeyImportedIntoGnuPGMessage.Fingerprint = KeyImportedIntoGnuPGMessage.Fingerprint x\<rparr> = x"
  by (cases x) simp

lemma dedup_snoc_present:
  "distinct ks \<Longrightarrow> k \<in> set ks \<Longrightarrow> deduplicateKeyImportedIntoGnuPGMessages (ks @ [k]) = ks"
  by (simp add: dedup_snoc dedup_id)

subsection \<open>The loops and the file\<close>

lemma deleteLoop_filter:
  "deleteLoop t f reqs acc = acc @ filter (\<lambda>r. \<not> (TeamUUID r = t \<and> Fingerprint r = f)) reqs"
  by (induction reqs arbitrary: acc) simp_all

lemma loadFromFile_distinct:
  "loadFromFile db = Inr m \<Longrightarrow> distinct (KeysImportedIntoGnuPG m)"
  by (auto simp: loadFromFile_def dedup_distinct split: file_state.splits json_doc.splits)

lemma saveToFile_ok:
  "createOk db \<Longrightarrow> encodeOk db \<Longrightarrow>
     saveToFile db m = (db\<lparr>jsonFile := Bytes (Object m [])\<rparr>, None)"
  by (simp add: saveToFile_def)

lemma loadFromFile_saved:
  "distinct (KeysImportedIntoGnuPG m) \<Longrightarrow>
     loadFromFile (db\<lparr>jsonFile := Bytes (Object m others)\<rparr>) = Inr m"
  by (simp add: loadFromFile_def dedup_id)

lemma Record_twice:
  "fst (RecordFingerprintImportedIntoGnuPG f (fst (RecordFingerprintImportedIntoGnuPG f db)))
     = fst (RecordFingerprintImportedIntoGnuPG f db)"
proof (cases "loadFromFile db")
  case (Inl e)
  then show ?thesis by (simp add: RecordFingerprintImportedIntoGnuPG_def)
next
  case (Inr m)
  let ?k = "\<lparr>KeyImportedIntoGnuPGMessage.Fingerprint = f\<rparr>"
  let ?m' = "m\<lparr>KeysImportedIntoGnuPG :=
               deduplicateKeyImportedIntoGnuPGMessages (KeysImportedIntoGnuPG m @ [?k])\<rparr>"
  have first: "RecordFingerprintImportedIntoGnuPG f db = saveToFile db ?m'"
    using Inr by (simp add: RecordFingerprintImportedIntoGnuPG_def)
  show ?thesis
  proof (cases "createOk db")
    case False
    then show ?thesis
      using Inr by (simp add: RecordFingerprintImportedIntoGnuPG_def saveToFile_def)
  next
    case c: True
    show ?thesis
    proof (cases "encodeOk db")
      case False
      then show ?thesis
        using Inr c
        by (simp add: RecordFingerprintImportedIntoGnuPG_def saveToFile_def loadFromFile_def)
    next
      case e: True
      let ?db' = "db\<lparr>jsonFile := Bytes (Object ?m' [])\<rparr>"
      have d1: "fst (RecordFingerprintImportedIntoGnuPG f db) = ?db'"
        using first c e by (simp add: saveToFile_ok)
      have l1: "loadFromFile ?db' = Inr ?m'"
        by (rule loadFromFile_saved) (simp add: dedup_distinct)
      have "deduplicateKeyImportedIntoGnuPGMessages (KeysImportedIntoGnuPG ?m' @ [?k])
          = KeysImportedIntoGnuPG ?m'"
        by (rule dedup_snoc_present) (simp_all add: dedup_distinct dedup_set)
      then have same: "?m'\<lparr>KeysImportedIntoGnuPG :=
               deduplicateKeyImportedIntoGnuPGMessages (KeysImportedIntoGnuPG ?m' @ [?k])\<rparr> = ?m'"
        by simp
      have "RecordFingerprintImportedIntoGnuPG f ?db' = saveToFile ?db' ?m'"
        unfolding RecordFingerprintImportedIntoGnuPG_def l1 using same by simp
      then have "fst (RecordFingerprintImportedIntoGnuPG f ?db') = ?db'"
        using c e by (simp add: saveToFile_ok)
      then show ?thesis by (simp add: d1)
    qed
  qed
qed

lemma Record_present:
  assumes "loadFromFile db = Inr m"
    and "f \<in> set (map KeyImportedIntoGnuPGMessage.Fingerprint (KeysImportedIntoGnuPG m))"
    and "encodeOk db"
  shows "loadFromFile (fst (RecordFingerprintImportedIntoGnuPG f db)) = Inr m"
proof -
  let ?k = "\<lparr>KeyImportedIntoGnuPGMessage.Fingerprint = f\<rparr>"
  have dist: "distinct (KeysImportedIntoGnuPG m)"
    using assms(1) by (rule loadFromFile_distinct)
  have "?k \<in> set (KeysImportedIntoGnuPG m)"
    using assms(2) by (auto simp: KeyImported_eta)
  with dist have "deduplicateKeyImportedIntoGnuPGMessages (KeysImportedIntoGnuPG m @ [?k])
      = KeysImportedIntoGnuPG m"
    by (rule dedup_snoc_present)
  then have r: "RecordFingerprintImportedIntoGnuPG f db = saveToFile db m"
    using assms(1) by (simp add: RecordFingerprintImportedIntoGnuPG_def)
  show ?thesis
  proof (cases "createOk db")
    case True
    then show ?thesis
      using r assms(3) dist by (simp add: saveToFile_ok loadFromFile_saved)
  next
    case False
    then show ?thesis using r assms(1) by (simp add: saveToFile_def)
  qed
qed

lemma loadFromFile_NotExist:
  "jsonFile db = NotExist \<Longrightarrow>
     loadFromFile db = Inr \<lparr>KeysImportedIntoGnuPG = [], RequestsToJoinTeams = []\<rparr>"
  by (simp add: loadFromFile_def)

lemma loadFromFile_Object:
  "jsonFile db = Bytes (Object m others) \<Longrightarrow>
     loadFromFile db =
       Inr \<lparr>KeysImportedIntoGnuPG =
              deduplicateKeyImportedIntoGnuPGMessages (KeysImportedIntoGnuPG m),
            RequestsToJoinTeams = RequestsToJoinTeams m\<rparr>"
  by (simp add: loadFromFile_def)

lemma loadFromFile_after_save:
  assumes "distinct (KeysImportedIntoGnuPG m)" and "createOk db" and "encodeOk db"
  shows "loadFromFile (fst (saveToFile db m)) = Inr m"
  using assms by (simp add: saveToFile_ok loadFromFile_saved)

lemma Get_not_Inl_NotExist:
  "GetFingerprintsImportedIntoGnuPG db =
     (case loadFromFile db of
        Inl err \<Rightarrow> Inl err
      | Inr message \<Rightarrow>
          Inr (map KeyImportedIntoGnuPGMessage.Fingerprint (KeysImportedIntoGnuPG message)))"
  by (simp add: GetFingerprintsImportedIntoGnuPG_def osIsNotExist_def split: sum.splits)

section \<open>Claims about the database\<close>

text \<open>
  C1, on the code: GetRequestsToJoinTeams returns every stored request. After two
  requests for the same team and fingerprint, recorded at instants 100 and 200 into a
  new database, it returns both, the older one first.
\<close>

theorem C1_both_requests_are_returned:
  "GetRequestsToJoinTeams
     (fst (RecordRequestToJoinTeam 7 9 200 (fst (RecordRequestToJoinTeam 7 9 100 newDatabase))))
   = Inr [\<lparr>RequestToJoinTeam.TeamUUID = 7, RequestToJoinTeam.Fingerprint = 9,
            RequestToJoinTeam.RequestedAt = 100\<rparr>,
          \<lparr>RequestToJoinTeam.TeamUUID = 7, RequestToJoinTeam.Fingerprint = 9,
            RequestToJoinTeam.RequestedAt = 200\<rparr>]"
  by (simp add: newDatabase_def GetRequestsToJoinTeams_def RecordRequestToJoinTeam_def
        loadFromFile_def saveToFile_def deduplicateKeyImportedIntoGnuPGMessages_def)

text \<open>
  C3. Recording the import of a fingerprint twice leaves the disk, and so the list that
  GetFingerprintsImportedIntoGnuPG returns, as recording it once does, from every prior
  state of the disk. When the fingerprint is already among the loaded keys and the
  encoder does not fail, the state that loadFromFile reads is unchanged.
\<close>

theorem C3_import_idempotent:
  "GetFingerprintsImportedIntoGnuPG
      (fst (RecordFingerprintImportedIntoGnuPG f (fst (RecordFingerprintImportedIntoGnuPG f db))))
     = GetFingerprintsImportedIntoGnuPG (fst (RecordFingerprintImportedIntoGnuPG f db))
   \<and> fst (RecordFingerprintImportedIntoGnuPG f (fst (RecordFingerprintImportedIntoGnuPG f db)))
     = fst (RecordFingerprintImportedIntoGnuPG f db)
   \<and> (loadFromFile db = Inr m
        \<and> f \<in> set (map KeyImportedIntoGnuPGMessage.Fingerprint (KeysImportedIntoGnuPG m))
        \<and> encodeOk db
      \<longrightarrow> loadFromFile (fst (RecordFingerprintImportedIntoGnuPG f db)) = Inr m
        \<and> GetFingerprintsImportedIntoGnuPG (fst (RecordFingerprintImportedIntoGnuPG f db))
            = GetFingerprintsImportedIntoGnuPG db)"
proof -
  have twice: "fst (RecordFingerprintImportedIntoGnuPG f (fst (RecordFingerprintImportedIntoGnuPG f db)))
     = fst (RecordFingerprintImportedIntoGnuPG f db)"
    by (rule Record_twice)
  have present: "loadFromFile (fst (RecordFingerprintImportedIntoGnuPG f db)) = Inr m"
    if "loadFromFile db = Inr m"
      and "f \<in> set (map KeyImportedIntoGnuPGMessage.Fingerprint (KeysImportedIntoGnuPG m))"
      and "encodeOk db"
    using that by (rule Record_present)
  have "GetFingerprintsImportedIntoGnuPG (fst (RecordFingerprintImportedIntoGnuPG f db))
            = GetFingerprintsImportedIntoGnuPG db"
    if "loadFromFile db = Inr m"
      and "f \<in> set (map KeyImportedIntoGnuPGMessage.Fingerprint (KeysImportedIntoGnuPG m))"
      and "encodeOk db"
    using present [OF that] that(1) by (simp add: GetFingerprintsImportedIntoGnuPG_def)
  with twice present show ?thesis by simp
qed

theorem C3_import_idempotent_witness:
  "loadFromFile \<lparr>jsonFile = Bytes (Object
        \<lparr>KeysImportedIntoGnuPG = [\<lparr>KeyImportedIntoGnuPGMessage.Fingerprint = 5\<rparr>],
         RequestsToJoinTeams = []\<rparr> []), createOk = True, encodeOk = True\<rparr>
     = Inr \<lparr>KeysImportedIntoGnuPG = [\<lparr>KeyImportedIntoGnuPGMessage.Fingerprint = 5\<rparr>],
         RequestsToJoinTeams = []\<rparr>
   \<and> (5 :: fingerprint) \<in> set (map KeyImportedIntoGnuPGMessage.Fingerprint
        (KeysImportedIntoGnuPG \<lparr>KeysImportedIntoGnuPG = [\<lparr>KeyImportedIntoGnuPGMessage.Fingerprint = 5\<rparr>],
         RequestsToJoinTeams = []\<rparr>))
   \<and> encodeOk \<lparr>jsonFile = Bytes (Object
        \<lparr>KeysImportedIntoGnuPG = [\<lparr>KeyImportedIntoGnuPGMessage.Fingerprint = 5\<rparr>],
         RequestsToJoinTeams = []\<rparr> []), createOk = True, encodeOk = True\<rparr>
   \<and> loadFromFile (fst (RecordFingerprintImportedIntoGnuPG 5 \<lparr>jsonFile = Bytes (Object
        \<lparr>KeysImportedIntoGnuPG = [\<lparr>KeyImportedIntoGnuPGMessage.Fingerprint = 5\<rparr>],
         RequestsToJoinTeams = []\<rparr> []), createOk = True, encodeOk = True\<rparr>))
     = Inr \<lparr>KeysImportedIntoGnuPG = [\<lparr>KeyImportedIntoGnuPGMessage.Fingerprint = 5\<rparr>],
         RequestsToJoinTeams = []\<rparr>"
  using C3_import_idempotent [of 5 "\<lparr>jsonFile = Bytes (Object
        \<lparr>KeysImportedIntoGnuPG = [\<lparr>KeyImportedIntoGnuPGMessage.Fingerprint = 5\<rparr>],
         RequestsToJoinTeams = []\<rparr> []), createOk = True, encodeOk = True\<rparr>"
       "\<lparr>KeysImportedIntoGnuPG = [\<lparr>KeyImportedIntoGnuPGMessage.Fingerprint = 5\<rparr>],
         RequestsToJoinTeams = []\<rparr>"]
  by (simp add: loadFromFile_def deduplicateKeyImportedIntoGnuPGMessages_def)

text \<open>
  C5, as the code has it. A mutation that loads and saves rewrites the file as a JSON
  object with the two members of Message and no other: the member it changes, and the
  other as loadFromFile read it (the imported keys deduplicated, the join requests as
  they were). Every member that Message has no field for is dropped.
\<close>

theorem C5_save_keeps_known_members_only:
  assumes "loadFromFile db = Inr m" and "createOk db" and "encodeOk db"
  shows "jsonFile (fst (RecordFingerprintImportedIntoGnuPG f db)) =
        Bytes (Object (m\<lparr>KeysImportedIntoGnuPG :=
          deduplicateKeyImportedIntoGnuPGMessages
            (KeysImportedIntoGnuPG m @ [\<lparr>KeyImportedIntoGnuPGMessage.Fingerprint = f\<rparr>])\<rparr>) [])
    \<and> jsonFile (fst (RecordRequestToJoinTeam t g now db)) =
        Bytes (Object (m\<lparr>RequestsToJoinTeams :=
          RequestsToJoinTeams m @ [\<lparr>TeamUUID = t, Fingerprint = g, RequestedAt = now\<rparr>]\<rparr>) [])
    \<and> jsonFile (fst (DeleteRequestToJoinTeam t g db)) =
        Bytes (Object (m\<lparr>RequestsToJoinTeams :=
          filter (\<lambda>r. \<not> (TeamUUID r = t \<and> Fingerprint r = g)) (RequestsToJoinTeams m)\<rparr>) [])
    \<and> unknownMembers (jsonFile (fst (RecordFingerprintImportedIntoGnuPG f db))) = []
    \<and> unknownMembers (jsonFile (fst (RecordRequestToJoinTeam t g now db))) = []
    \<and> unknownMembers (jsonFile (fst (DeleteRequestToJoinTeam t g db))) = []"
proof -
  have s: "jsonFile (fst (saveToFile db m')) = Bytes (Object m' [])" for m'
    using assms(2,3) by (simp add: saveToFile_ok)
  have a: "jsonFile (fst (RecordFingerprintImportedIntoGnuPG f db)) =
        Bytes (Object (m\<lparr>KeysImportedIntoGnuPG :=
          deduplicateKeyImportedIntoGnuPGMessages
            (KeysImportedIntoGnuPG m @ [\<lparr>KeyImportedIntoGnuPGMessage.Fingerprint = f\<rparr>])\<rparr>) [])"
    by (simp add: RecordFingerprintImportedIntoGnuPG_def assms(1) s)
  have b: "jsonFile (fst (RecordRequestToJoinTeam t g now db)) =
        Bytes (Object (m\<lparr>RequestsToJoinTeams :=
          RequestsToJoinTeams m @ [\<lparr>TeamUUID = t, Fingerprint = g, RequestedAt = now\<rparr>]\<rparr>) [])"
    by (simp add: RecordRequestToJoinTeam_def assms(1) s)
  have c: "jsonFile (fst (DeleteRequestToJoinTeam t g db)) =
        Bytes (Object (m\<lparr>RequestsToJoinTeams :=
          filter (\<lambda>r. \<not> (TeamUUID r = t \<and> Fingerprint r = g)) (RequestsToJoinTeams m)\<rparr>) [])"
    by (simp add: DeleteRequestToJoinTeam_def assms(1) s deleteLoop_filter)
  show ?thesis
    unfolding a b c by simp
qed

theorem C5_save_keeps_known_members_only_witness:
  "loadFromFile (diskHolding
       \<lparr>KeysImportedIntoGnuPG = [\<lparr>KeyImportedIntoGnuPGMessage.Fingerprint = 5\<rparr>],
        RequestsToJoinTeams = []\<rparr> [(''EventTimes'', ''{}'')])
     = Inr \<lparr>KeysImportedIntoGnuPG = [\<lparr>KeyImportedIntoGnuPGMessage.Fingerprint = 5\<rparr>],
            RequestsToJoinTeams = []\<rparr>
   \<and> createOk (diskHolding
       \<lparr>KeysImportedIntoGnuPG = [\<lparr>KeyImportedIntoGnuPGMessage.Fingerprint = 5\<rparr>],
        RequestsToJoinTeams = []\<rparr> [(''EventTimes'', ''{}'')])
   \<and> encodeOk (diskHolding
       \<lparr>KeysImportedIntoGnuPG = [\<lparr>KeyImportedIntoGnuPGMessage.Fingerprint = 5\<rparr>],
        RequestsToJoinTeams = []\<rparr> [(''EventTimes'', ''{}'')])
   \<and> jsonFile (fst (RecordRequestToJoinTeam 7 9 100 (diskHolding
       \<lparr>KeysImportedIntoGnuPG = [\<lparr>KeyImportedIntoGnuPGMessage.Fingerprint = 5\<rparr>],
        RequestsToJoinTeams = []\<rparr> [(''EventTimes'', ''{}'')])))
     = Bytes (Object
         \<lparr>KeysImportedIntoGnuPG = [\<lparr>KeyImportedIntoGnuPGMessage.Fingerprint = 5\<rparr>],
          RequestsToJoinTeams = [\<lparr>TeamUUID = 7, Fingerprint = 9, RequestedAt = 100\<rparr>]\<rparr> [])"
  using C5_save_keeps_known_members_only [of "diskHolding
       \<lparr>KeysImportedIntoGnuPG = [\<lparr>KeyImportedIntoGnuPGMessage.Fingerprint = 5\<rparr>],
        RequestsToJoinTeams = []\<rparr> [(''EventTimes'', ''{}'')]"
      "\<lparr>KeysImportedIntoGnuPG = [\<lparr>KeyImportedIntoGnuPGMessage.Fingerprint = 5\<rparr>],
        RequestsToJoinTeams = []\<rparr>" 5 7 9 100]
  by (simp add: diskHolding_def loadFromFile_def deduplicateKeyImportedIntoGnuPGMessages_def)

text \<open>
  C5, as the claim states it, fails: a file with a member named EventTimes, unknown to
  Message, has lost that member after one RecordRequestToJoinTeam.
\<close>

theorem C5_unknown_member_is_lost:
  "unknownMembers (jsonFile (diskHolding
       \<lparr>KeysImportedIntoGnuPG = [\<lparr>KeyImportedIntoGnuPGMessage.Fingerprint = 5\<rparr>],
        RequestsToJoinTeams = []\<rparr> [(''EventTimes'', ''{}'')]))
     = [(''EventTimes'', ''{}'')]
   \<and> snd (RecordRequestToJoinTeam 7 9 100 (diskHolding
       \<lparr>KeysImportedIntoGnuPG = [\<lparr>KeyImportedIntoGnuPGMessage.Fingerprint = 5\<rparr>],
        RequestsToJoinTeams = []\<rparr> [(''EventTimes'', ''{}'')])) = None
   \<and> unknownMembers (jsonFile (fst (RecordRequestToJoinTeam 7 9 100 (diskHolding
       \<lparr>KeysImportedIntoGnuPG = [\<lparr>KeyImportedIntoGnuPGMessage.Fingerprint = 5\<rparr>],
        RequestsToJoinTeams = []\<rparr> [(''EventTimes'', ''{}'')]))))
     = []"
  by (simp add: diskHolding_def RecordRequestToJoinTeam_def loadFromFile_def saveToFile_def
        deduplicateKeyImportedIntoGnuPGMessages_def)

text \<open>
  C6. When the backing file does not exist, both read operations return the empty list
  and no error, and each mutating operation works from the empty Message: it saves the
  empty state with its one change, and returns no error when the file can be created
  and encoded.
\<close>

theorem C6_missing_file_is_empty_state:
  assumes "jsonFile db = NotExist"
  shows "GetFingerprintsImportedIntoGnuPG db = Inr []
    \<and> GetRequestsToJoinTeams db = Inr []
    \<and> RecordFingerprintImportedIntoGnuPG f db =
        saveToFile db \<lparr>KeysImportedIntoGnuPG = [\<lparr>KeyImportedIntoGnuPGMessage.Fingerprint = f\<rparr>],
                        RequestsToJoinTeams = []\<rparr>
    \<and> RecordRequestToJoinTeam t g now db =
        saveToFile db \<lparr>KeysImportedIntoGnuPG = [],
                        RequestsToJoinTeams = [\<lparr>TeamUUID = t, Fingerprint = g, RequestedAt = now\<rparr>]\<rparr>
    \<and> DeleteRequestToJoinTeam t g db =
        saveToFile db \<lparr>KeysImportedIntoGnuPG = [], RequestsToJoinTeams = []\<rparr>
    \<and> (createOk db \<and> encodeOk db \<longrightarrow>
          snd (RecordFingerprintImportedIntoGnuPG f db) = None
        \<and> snd (RecordRequestToJoinTeam t g now db) = None
        \<and> snd (DeleteRequestToJoinTeam t g db) = None)"
proof -
  note l = loadFromFile_NotExist [OF assms]
  have r1: "GetFingerprintsImportedIntoGnuPG db = Inr []"
    by (simp add: GetFingerprintsImportedIntoGnuPG_def l)
  have r2: "GetRequestsToJoinTeams db = Inr []"
    by (simp add: GetRequestsToJoinTeams_def l)
  have m1: "RecordFingerprintImportedIntoGnuPG f db =
        saveToFile db \<lparr>KeysImportedIntoGnuPG = [\<lparr>KeyImportedIntoGnuPGMessage.Fingerprint = f\<rparr>],
                        RequestsToJoinTeams = []\<rparr>"
    by (simp add: RecordFingerprintImportedIntoGnuPG_def l deduplicateKeyImportedIntoGnuPGMessages_def)
  have m2: "RecordRequestToJoinTeam t g now db =
        saveToFile db \<lparr>KeysImportedIntoGnuPG = [],
                        RequestsToJoinTeams = [\<lparr>TeamUUID = t, Fingerprint = g, RequestedAt = now\<rparr>]\<rparr>"
    by (simp add: RecordRequestToJoinTeam_def l)
  have m3: "DeleteRequestToJoinTeam t g db =
        saveToFile db \<lparr>KeysImportedIntoGnuPG = [], RequestsToJoinTeams = []\<rparr>"
    by (simp add: DeleteRequestToJoinTeam_def l)
  have ok: "snd (saveToFile db m) = None" if "createOk db \<and> encodeOk db" for m
    using that by (simp add: saveToFile_def)
  show ?thesis
    unfolding m1 m2 m3 using r1 r2 ok by simp
qed

theorem C6_missing_file_is_empty_state_witness:
  "jsonFile \<lparr>jsonFile = NotExist, createOk = True, encodeOk = True\<rparr> = NotExist
   \<and> GetFingerprintsImportedIntoGnuPG \<lparr>jsonFile = NotExist, createOk = True, encodeOk = True\<rparr> = Inr []
   \<and> GetRequestsToJoinTeams \<lparr>jsonFile = NotExist, createOk = True, encodeOk = True\<rparr> = Inr []
   \<and> snd (RecordFingerprintImportedIntoGnuPG 5 \<lparr>jsonFile = NotExist, createOk = True, encodeOk = True\<rparr>) = None
   \<and> snd (RecordRequestToJoinTeam 7 9 100 \<lparr>jsonFile = NotExist, createOk = True, encodeOk = True\<rparr>) = None
   \<and> snd (DeleteRequestToJoinTeam 7 9 \<lparr>jsonFile = NotExist, createOk = True, encodeOk = True\<rparr>) = None"
  using C6_missing_file_is_empty_state
    [of "\<lparr>jsonFile = NotExist, createOk = True, encodeOk = True\<rparr>" 5 7 9 100]
  by (simp add: saveToFile_def)

text \<open>
  C7. The loop of DeleteRequestToJoinTeam keeps exactly the requests that do not match
  both the team UUID and the fingerprint, in their order. When the load and the save
  succeed, the call returns no error and the state read back is the loaded Message with
  its join requests so filtered: no matching request is left and the imported keys are
  as before.
\<close>

theorem C7_delete_removes_all_matching:
  "deleteLoop t f reqs [] = filter (\<lambda>r. \<not> (TeamUUID r = t \<and> Fingerprint r = f)) reqs
   \<and> (loadFromFile db = Inr m \<and> createOk db \<and> encodeOk db \<longrightarrow>
        snd (DeleteRequestToJoinTeam t f db) = None
      \<and> loadFromFile (fst (DeleteRequestToJoinTeam t f db)) =
          Inr (m\<lparr>RequestsToJoinTeams :=
                 filter (\<lambda>r. \<not> (TeamUUID r = t \<and> Fingerprint r = f)) (RequestsToJoinTeams m)\<rparr>)
      \<and> GetRequestsToJoinTeams (fst (DeleteRequestToJoinTeam t f db)) =
          Inr (map (\<lambda>msg. \<lparr>RequestToJoinTeam.TeamUUID = TeamUUID msg,
                              RequestToJoinTeam.Fingerprint = Fingerprint msg,
                              RequestToJoinTeam.RequestedAt = RequestedAt msg\<rparr>)
                 (filter (\<lambda>r. \<not> (TeamUUID r = t \<and> Fingerprint r = f)) (RequestsToJoinTeams m))))"
proof -
  let ?keep = "filter (\<lambda>r. \<not> (TeamUUID r = t \<and> Fingerprint r = f))"
  have loop: "deleteLoop t f rs [] = ?keep rs" for rs
    by (simp add: deleteLoop_filter)
  have eff: "snd (DeleteRequestToJoinTeam t f db) = None
      \<and> loadFromFile (fst (DeleteRequestToJoinTeam t f db)) =
          Inr (m\<lparr>RequestsToJoinTeams := ?keep (RequestsToJoinTeams m)\<rparr>)"
    if l: "loadFromFile db = Inr m" and c: "createOk db" and e: "encodeOk db"
  proof -
    let ?m' = "m\<lparr>RequestsToJoinTeams := ?keep (RequestsToJoinTeams m)\<rparr>"
    have d: "DeleteRequestToJoinTeam t f db = saveToFile db ?m'"
      by (simp add: DeleteRequestToJoinTeam_def l loop)
    have "distinct (KeysImportedIntoGnuPG ?m')"
      using loadFromFile_distinct [OF l] by simp
    then have "loadFromFile (fst (saveToFile db ?m')) = Inr ?m'"
      using c e by (rule loadFromFile_after_save)
    moreover have "snd (saveToFile db ?m') = None"
      using c e by (simp add: saveToFile_def)
    ultimately show ?thesis by (simp add: d)
  qed
  show ?thesis
  proof (intro conjI impI)
    show "deleteLoop t f reqs [] = ?keep reqs" by (rule loop)
  next
    assume "loadFromFile db = Inr m \<and> createOk db \<and> encodeOk db"
    then show "snd (DeleteRequestToJoinTeam t f db) = None" using eff by simp
  next
    assume "loadFromFile db = Inr m \<and> createOk db \<and> encodeOk db"
    then show "loadFromFile (fst (DeleteRequestToJoinTeam t f db)) =
          Inr (m\<lparr>RequestsToJoinTeams := ?keep (RequestsToJoinTeams m)\<rparr>)"
      using eff by simp
  next
    assume "loadFromFile db = Inr m \<and> createOk db \<and> encodeOk db"
    then have "loadFromFile (fst (DeleteRequestToJoinTeam t f db)) =
          Inr (m\<lparr>RequestsToJoinTeams := ?keep (RequestsToJoinTeams m)\<rparr>)"
      using eff by simp
    then show "GetRequestsToJoinTeams (fst (DeleteRequestToJoinTeam t f db)) =
          Inr (map (\<lambda>msg. \<lparr>RequestToJoinTeam.TeamUUID = TeamUUID msg,
                              RequestToJoinTeam.Fingerprint = Fingerprint msg,
                              RequestToJoinTeam.RequestedAt = RequestedAt msg\<rparr>)
                 (?keep (RequestsToJoinTeams m)))"
      by (simp add: GetRequestsToJoinTeams_def)
  qed
qed


theorem C7_delete_removes_all_matching_witness:
  "loadFromFile (diskHolding
       \<lparr>KeysImportedIntoGnuPG = [],
        RequestsToJoinTeams =
          [\<lparr>TeamUUID = 1, Fingerprint = 2, RequestedAt = 100\<rparr>,
           \<lparr>TeamUUID = 1, Fingerprint = 2, RequestedAt = 200\<rparr>,
           \<lparr>TeamUUID = 1, Fingerprint = 3, RequestedAt = 100\<rparr>,
           \<lparr>TeamUUID = 4, Fingerprint = 3, RequestedAt = 200\<rparr>]\<rparr> [])
     = Inr \<lparr>KeysImportedIntoGnuPG = [],
        RequestsToJoinTeams =
          [\<lparr>TeamUUID = 1, Fingerprint = 2, RequestedAt = 100\<rparr>,
           \<lparr>TeamUUID = 1, Fingerprint = 2, RequestedAt = 200\<rparr>,
           \<lparr>TeamUUID = 1, Fingerprint = 3, RequestedAt = 100\<rparr>,
           \<lparr>TeamUUID = 4, Fingerprint = 3, RequestedAt = 200\<rparr>]\<rparr>
   \<and> createOk (diskHolding
       \<lparr>KeysImportedIntoGnuPG = [],
        RequestsToJoinTeams =
          [\<lparr>TeamUUID = 1, Fingerprint = 2, RequestedAt = 100\<rparr>,
           \<lparr>TeamUUID = 1, Fingerprint = 2, RequestedAt = 200\<rparr>,
           \<lparr>TeamUUID = 1, Fingerprint = 3, RequestedAt = 100\<rparr>,
           \<lparr>TeamUUID = 4, Fingerprint = 3, RequestedAt = 200\<rparr>]\<rparr> [])
   \<and> encodeOk (diskHolding
       \<lparr>KeysImportedIntoGnuPG = [],
        RequestsToJoinTeams =
          [\<lparr>TeamUUID = 1, Fingerprint = 2, RequestedAt = 100\<rparr>,
           \<lparr>TeamUUID = 1, Fingerprint = 2, RequestedAt = 200\<rparr>,
           \<lparr>TeamUUID = 1, Fingerprint = 3, RequestedAt = 100\<rparr>,
           \<lparr>TeamUUID = 4, Fingerprint = 3, RequestedAt = 200\<rparr>]\<rparr> [])
   \<and> GetRequestsToJoinTeams (fst (DeleteRequestToJoinTeam 1 2 (diskHolding
       \<lparr>KeysImportedIntoGnuPG = [],
        RequestsToJoinTeams =
          [\<lparr>TeamUUID = 1, Fingerprint = 2, RequestedAt = 100\<rparr>,
           \<lparr>TeamUUID = 1, Fingerprint = 2, RequestedAt = 200\<rparr>,
           \<lparr>TeamUUID = 1, Fingerprint = 3, RequestedAt = 100\<rparr>,
           \<lparr>TeamUUID = 4, Fingerprint = 3, RequestedAt = 200\<rparr>]\<rparr> [])))
     = Inr [\<lparr>RequestToJoinTeam.TeamUUID = 1, RequestToJoinTeam.Fingerprint = 3,
             RequestToJoinTeam.RequestedAt = 100\<rparr>,
            \<lparr>RequestToJoinTeam.TeamUUID = 4, RequestToJoinTeam.Fingerprint = 3,
             RequestToJoinTeam.RequestedAt = 200\<rparr>]"
  using C7_delete_removes_all_matching [of 1 2 "[]" "diskHolding
       \<lparr>KeysImportedIntoGnuPG = [],
        RequestsToJoinTeams =
          [\<lparr>TeamUUID = 1, Fingerprint = 2, RequestedAt = 100\<rparr>,
           \<lparr>TeamUUID = 1, Fingerprint = 2, RequestedAt = 200\<rparr>,
           \<lparr>TeamUUID = 1, Fingerprint = 3, RequestedAt = 100\<rparr>,
           \<lparr>TeamUUID = 4, Fingerprint = 3, RequestedAt = 200\<rparr>]\<rparr> []"
      "\<lparr>KeysImportedIntoGnuPG = [],
        RequestsToJoinTeams =
          [\<lparr>TeamUUID = 1, Fingerprint = 2, RequestedAt = 100\<rparr>,
           \<lparr>TeamUUID = 1, Fingerprint = 2, RequestedAt = 200\<rparr>,
           \<lparr>TeamUUID = 1, Fingerprint = 3, RequestedAt = 100\<rparr>,
           \<lparr>TeamUUID = 4, Fingerprint = 3, RequestedAt = 200\<rparr>]\<rparr>"]
  by (simp add: diskHolding_def loadFromFile_def deduplicateKeyImportedIntoGnuPGMessages_def)

text \<open>
  C8. Deduplication treats two import records as equal exactly when their fingerprints
  are equal, collapses equal records to one (the result has no fingerprint twice and the
  same elements as the input) and returns the records in first-seen order: the result
  is the input restricted to the positions whose record does not occur earlier.
\<close>

theorem C8_dedup_first_seen:
  "(((a :: KeyImportedIntoGnuPGMessage) = b)
      = (KeyImportedIntoGnuPGMessage.Fingerprint a = KeyImportedIntoGnuPGMessage.Fingerprint b))
   \<and> distinct (map KeyImportedIntoGnuPGMessage.Fingerprint (deduplicateKeyImportedIntoGnuPGMessages xs))
   \<and> set (deduplicateKeyImportedIntoGnuPGMessages xs) = set xs
   \<and> deduplicateKeyImportedIntoGnuPGMessages xs =
       map (\<lambda>i. xs ! i) (filter (\<lambda>i. xs ! i \<notin> set (take i xs)) [0..<length xs])"
  using KeyImported_eq_iff [of a b] fp_distinct [of xs] dedup_set [of xs] dedup_firsts [of xs]
  by blast

text \<open>
  C9. Every load deduplicates the imported keys: for a file that holds a JSON object,
  GetFingerprintsImportedIntoGnuPG returns the fingerprints of the deduplicated list,
  and whatever the file holds, a list it returns has no fingerprint twice.
\<close>

theorem C9_listing_has_no_duplicates:
  "(jsonFile db = Bytes (Object m others) \<longrightarrow>
      GetFingerprintsImportedIntoGnuPG db =
        Inr (map KeyImportedIntoGnuPGMessage.Fingerprint
               (deduplicateKeyImportedIntoGnuPGMessages (KeysImportedIntoGnuPG m))))
   \<and> (\<forall>fingerprints. GetFingerprintsImportedIntoGnuPG db = Inr fingerprints
        \<longrightarrow> distinct fingerprints)"
proof (intro conjI allI impI)
  assume "jsonFile db = Bytes (Object m others)"
  then show "GetFingerprintsImportedIntoGnuPG db =
        Inr (map KeyImportedIntoGnuPGMessage.Fingerprint
               (deduplicateKeyImportedIntoGnuPGMessages (KeysImportedIntoGnuPG m)))"
    by (simp add: Get_not_Inl_NotExist loadFromFile_Object)
next
  fix fingerprints
  assume g: "GetFingerprintsImportedIntoGnuPG db = Inr fingerprints"
  then obtain message where l: "loadFromFile db = Inr message"
    and f: "fingerprints = map KeyImportedIntoGnuPGMessage.Fingerprint (KeysImportedIntoGnuPG message)"
    by (auto simp: Get_not_Inl_NotExist split: sum.splits)
  have "distinct (KeysImportedIntoGnuPG message)"
    using l by (rule loadFromFile_distinct)
  then show "distinct fingerprints"
    unfolding f by (simp add: distinct_map inj_on_def KeyImported_eq_iff)
qed

theorem C9_listing_has_no_duplicates_witness:
  "jsonFile (diskHolding
      \<lparr>KeysImportedIntoGnuPG =
         [\<lparr>KeyImportedIntoGnuPGMessage.Fingerprint = 5\<rparr>,
          \<lparr>KeyImportedIntoGnuPGMessage.Fingerprint = 5\<rparr>,
          \<lparr>KeyImportedIntoGnuPGMessage.Fingerprint = 6\<rparr>],
       RequestsToJoinTeams = []\<rparr> [])
     = Bytes (Object
      \<lparr>KeysImportedIntoGnuPG =
         [\<lparr>KeyImportedIntoGnuPGMessage.Fingerprint = 5\<rparr>,
          \<lparr>KeyImportedIntoGnuPGMessage.Fingerprint = 5\<rparr>,
          \<lparr>KeyImportedIntoGnuPGMessage.Fingerprint = 6\<rparr>],
       RequestsToJoinTeams = []\<rparr> [])
   \<and> GetFingerprintsImportedIntoGnuPG (diskHolding
      \<lparr>KeysImportedIntoGnuPG =
         [\<lparr>KeyImportedIntoGnuPGMessage.Fingerprint = 5\<rparr>,
          \<lparr>KeyImportedIntoGnuPGMessage.Fingerprint = 5\<rparr>,
          \<lparr>KeyImportedIntoGnuPGMessage.Fingerprint = 6\<rparr>],
       RequestsToJoinTeams = []\<rparr> []) = Inr [5, 6]
   \<and> distinct [5, 6 :: fingerprint]"
  using C9_listing_has_no_duplicates [of "diskHolding
      \<lparr>KeysImportedIntoGnuPG =
         [\<lparr>KeyImportedIntoGnuPGMessage.Fingerprint = 5\<rparr>,
          \<lparr>KeyImportedIntoGnuPGMessage.Fingerprint = 5\<rparr>,
          \<lparr>KeyImportedIntoGnuPGMessage.Fingerprint = 6\<rparr>],
       RequestsToJoinTeams = []\<rparr> []"
     "\<lparr>KeysImportedIntoGnuPG =
         [\<lparr>KeyImportedIntoGnuPGMessage.Fingerprint = 5\<rparr>,
          \<lparr>KeyImportedIntoGnuPGMessage.Fingerprint = 5\<rparr>,
          \<lparr>KeyImportedIntoGnuPGMessage.Fingerprint = 6\<rparr>],
       RequestsToJoinTeams = []\<rparr>" "[]"]
  by (simp add: diskHolding_def deduplicateKeyImportedIntoGnuPGMessages_def)

text \<open>
  C10. Unless the encoder fails in the middle of the save, RecordRequestToJoinTeam
  leaves the result of GetFingerprintsImportedIntoGnuPG as it was, from every prior
  state of the disk. When the load and the save succeed, the state read back is the
  loaded Message with the new request appended to its join requests and nothing else
  changed.
\<close>

theorem C10_join_request_keeps_imported_keys:
  "(encodeOk db \<longrightarrow>
      GetFingerprintsImportedIntoGnuPG (fst (RecordRequestToJoinTeam t f now db))
        = GetFingerprintsImportedIntoGnuPG db)
   \<and> (loadFromFile db = Inr m \<and> createOk db \<and> encodeOk db \<longrightarrow>
        snd (RecordRequestToJoinTeam t f now db) = None
      \<and> loadFromFile (fst (RecordRequestToJoinTeam t f now db)) =
          Inr (m\<lparr>RequestsToJoinTeams :=
                 RequestsToJoinTeams m
                   @ [\<lparr>TeamUUID = t, Fingerprint = f, RequestedAt = now\<rparr>]\<rparr>))"
proof -
  let ?new = "\<lparr>TeamUUID = t, Fingerprint = f, RequestedAt = now\<rparr>"
  have eff: "snd (RecordRequestToJoinTeam t f now db) = None
      \<and> loadFromFile (fst (RecordRequestToJoinTeam t f now db)) =
          Inr (m'\<lparr>RequestsToJoinTeams := RequestsToJoinTeams m' @ [?new]\<rparr>)"
    if l: "loadFromFile db = Inr m'" and c: "createOk db" and e: "encodeOk db" for m'
  proof -
    let ?m'' = "m'\<lparr>RequestsToJoinTeams := RequestsToJoinTeams m' @ [?new]\<rparr>"
    have r: "RecordRequestToJoinTeam t f now db = saveToFile db ?m''"
      by (simp add: RecordRequestToJoinTeam_def l)
    have "distinct (KeysImportedIntoGnuPG ?m'')"
      using loadFromFile_distinct [OF l] by simp
    then have "loadFromFile (fst (saveToFile db ?m'')) = Inr ?m''"
      using c e by (rule loadFromFile_after_save)
    moreover have "snd (saveToFile db ?m'') = None"
      using c e by (simp add: saveToFile_def)
    ultimately show ?thesis by (simp add: r)
  qed
  have frame: "GetFingerprintsImportedIntoGnuPG (fst (RecordRequestToJoinTeam t f now db))
        = GetFingerprintsImportedIntoGnuPG db" if e: "encodeOk db"
  proof (cases "loadFromFile db")
    case (Inl err)
    then show ?thesis by (simp add: RecordRequestToJoinTeam_def)
  next
    case (Inr m')
    show ?thesis
    proof (cases "createOk db")
      case True
      then show ?thesis
        using eff [OF Inr True e] Inr by (simp add: Get_not_Inl_NotExist)
    next
      case False
      then show ?thesis
        using Inr by (simp add: RecordRequestToJoinTeam_def saveToFile_def)
    qed
  qed
  show ?thesis using eff [of m] frame by simp
qed

theorem C10_join_request_keeps_imported_keys_witness:
  "encodeOk (diskHolding
      \<lparr>KeysImportedIntoGnuPG = [\<lparr>KeyImportedIntoGnuPGMessage.Fingerprint = 5\<rparr>],
       RequestsToJoinTeams = []\<rparr> [])
   \<and> GetFingerprintsImportedIntoGnuPG (fst (RecordRequestToJoinTeam 7 9 100 (diskHolding
      \<lparr>KeysImportedIntoGnuPG = [\<lparr>KeyImportedIntoGnuPGMessage.Fingerprint = 5\<rparr>],
       RequestsToJoinTeams = []\<rparr> []))) = Inr [5]
   \<and> GetFingerprintsImportedIntoGnuPG (diskHolding
      \<lparr>KeysImportedIntoGnuPG = [\<lparr>KeyImportedIntoGnuPGMessage.Fingerprint = 5\<rparr>],
       RequestsToJoinTeams = []\<rparr> []) = Inr [5]
   \<and> loadFromFile (fst (RecordRequestToJoinTeam 7 9 100 (diskHolding
      \<lparr>KeysImportedIntoGnuPG = [\<lparr>KeyImportedIntoGnuPGMessage.Fingerprint = 5\<rparr>],
       RequestsToJoinTeams = []\<rparr> [])))
     = Inr \<lparr>KeysImportedIntoGnuPG = [\<lparr>KeyImportedIntoGnuPGMessage.Fingerprint = 5\<rparr>],
            RequestsToJoinTeams = [\<lparr>TeamUUID = 7, Fingerprint = 9, RequestedAt = 100\<rparr>]\<rparr>"
  using C10_join_request_keeps_imported_keys [of "diskHolding
      \<lparr>KeysImportedIntoGnuPG = [\<lparr>KeyImportedIntoGnuPGMessage.Fingerprint = 5\<rparr>],
       RequestsToJoinTeams = []\<rparr> []" 7 9 100
      "\<lparr>KeysImportedIntoGnuPG = [\<lparr>KeyImportedIntoGnuPGMessage.Fingerprint = 5\<rparr>],
       RequestsToJoinTeams = []\<rparr>"]
  by (simp add: diskHolding_def loadFromFile_def Get_not_Inl_NotExist
        deduplicateKeyImportedIntoGnuPGMessages_def)

section \<open>Claims about the action timestamps and the classifier\<close>

text \<open>
  C2. isOlderThan is true when getLastAction finds no record for the verb and the
  identity, and otherwise it is true exactly when now minus the recorded instant is at
  least maxAge; after recordAction has recorded an instant for the pair, that instant
  is the one compared.
\<close>

theorem C2_isOlderThan:
  "(getLastAction verb ident store = None \<longrightarrow> isOlderThan verb ident maxAge now store)
   \<and> (\<forall>lastTime. getLastAction verb ident store = Some lastTime \<longrightarrow>
        isOlderThan verb ident maxAge now store = (maxAge \<le> now - lastTime))
   \<and> (\<forall>lastTime store'. recordAction verb ident lastTime store = Inr store' \<longrightarrow>
        isOlderThan verb ident maxAge now store' = (maxAge \<le> now - lastTime))"
proof (intro conjI allI impI)
  assume "getLastAction verb ident store = None"
  then show "isOlderThan verb ident maxAge now store"
    by (simp add: isOlderThan_def)
next
  fix lastTime
  assume "getLastAction verb ident store = Some lastTime"
  then show "isOlderThan verb ident maxAge now store = (maxAge \<le> now - lastTime)"
    by (simp add: isOlderThan_def)
next
  fix lastTime store'
  assume "recordAction verb ident lastTime store = Inr store'"
  then have "getLastAction verb ident store' = Some lastTime"
    by (auto simp: recordAction_def getLastAction_def split: if_splits option.splits)
  then show "isOlderThan verb ident maxAge now store' = (maxAge \<le> now - lastTime)"
    by (simp add: isOlderThan_def)
qed

theorem C2_isOlderThan_witness:
  "getLastAction ''fetch'' (FingerprintValue 2) Map.empty = None
   \<and> isOlderThan ''fetch'' (FingerprintValue 2) 3000 3600 Map.empty
   \<and> recordAction ''fetch'' (FingerprintValue 2) 0 Map.empty
       = Inr [(''fetch'', KeyOfFingerprint 2) \<mapsto> 0]
   \<and> getLastAction ''fetch'' (CarriesFingerprint 2) [(''fetch'', KeyOfFingerprint 2) \<mapsto> 0] = Some 0
   \<and> isOlderThan ''fetch'' (CarriesFingerprint 2) 3300 3600 [(''fetch'', KeyOfFingerprint 2) \<mapsto> 0]
   \<and> isOlderThan ''fetch'' (CarriesFingerprint 2) 3600 3600 [(''fetch'', KeyOfFingerprint 2) \<mapsto> 0]
   \<and> isOlderThan ''fetch'' (CarriesFingerprint 2) 3900 3600 [(''fetch'', KeyOfFingerprint 2) \<mapsto> 0] = False"
  using C2_isOlderThan [of "''fetch''" "FingerprintValue 2" Map.empty 3000 3600]
    C2_isOlderThan [of "''fetch''" "CarriesFingerprint 2" "[(''fetch'', KeyOfFingerprint 2) \<mapsto> 0]" 3300 3600]
    C2_isOlderThan [of "''fetch''" "CarriesFingerprint 2" "[(''fetch'', KeyOfFingerprint 2) \<mapsto> 0]" 3600 3600]
    C2_isOlderThan [of "''fetch''" "CarriesFingerprint 2" "[(''fetch'', KeyOfFingerprint 2) \<mapsto> 0]" 3900 3600]
  by (simp add: getLastAction_def recordAction_def)

text \<open>
  C4, as the algorithm of section 4.2 has it. With an expiry equal to now the day
  count is 0, which is not negative, so the state is OverdueForRotation 0 and not
  Expired 0. An expiry one day before now gives Expired 1, an expiry of now plus the
  urgent window gives OverdueForRotation with the window's day count, and no expiry
  gives NoExpiry.
\<close>

theorem C4_classifier_boundaries:
  "classify p (Some now) lastRotatedAt now = OverdueForRotation 0
   \<and> classify p (Some (now - day)) lastRotatedAt now = Expired 1
   \<and> classify p (Some (now + int (urgentWindowDays p) * day)) lastRotatedAt now
       = OverdueForRotation (int (urgentWindowDays p))
   \<and> classify p None lastRotatedAt now = NoExpiry"
proof -
  have d: "day \<noteq> 0" by (simp add: day_def)
  have b: "- day div day = - 1" by (simp add: day_def)
  have c1: "classify p (Some now) lastRotatedAt now = OverdueForRotation 0"
    by (simp add: classify_def)
  have c2: "classify p (Some (now - day)) lastRotatedAt now = Expired 1"
    by (simp add: classify_def b)
  have c3: "classify p (Some (now + int (urgentWindowDays p) * day)) lastRotatedAt now
       = OverdueForRotation (int (urgentWindowDays p))"
    by (simp add: classify_def d)
  have c4: "classify p None lastRotatedAt now = NoExpiry"
    by (simp add: classify_def)
  show ?thesis using c1 c2 c3 c4 by blast
qed

text \<open>
  C4, as the claim states it, fails at its first case: with an urgent window of 5 days
  and an expiry equal to now, classify does not return Expired 0.
\<close>

theorem C4_expiry_now_is_not_expired:
  "classify \<lparr>urgentWindowDays = 5, earlyWarningDays = 30, maxValidityDays = 365,
              rotationCadence = 0\<rparr> (Some 1000) None 1000 = OverdueForRotation 0
   \<and> classify \<lparr>urgentWindowDays = 5, earlyWarningDays = 30, maxValidityDays = 365,
              rotationCadence = 0\<rparr> (Some 1000) None 1000 \<noteq> Expired 0"
  by (simp add: classify_def day_def)

end
